theory Spec2Isabelle
  imports Complex_Main "HOL-Library.Sublist"
begin

section \<open>Strings\<close>

text \<open>
  Python \<open>str\<close> values are modelled as \<open>string\<close> (lists of 8-bit characters) and are
  taken to be ASCII text: \<open>str.strip\<close>, \<open>str.upper\<close> and \<open>str.lower\<close> are embedded with
  their behaviour on ASCII characters, which is where ticker symbols, market names and
  provider messages live.
\<close>

definition is_space :: "char \<Rightarrow> bool" where
  \<comment> \<open>\<open>str.isspace\<close> on ASCII: TAB, LF, VT, FF, CR, the separators FS, GS, RS, US, and SPACE\<close>
  "is_space c = (let n = (of_char c :: nat) in (9 \<le> n \<and> n \<le> 13) \<or> (28 \<le> n \<and> n \<le> 32))"

definition strip :: "string \<Rightarrow> string" where
  "strip s = rev (dropWhile is_space (rev (dropWhile is_space s)))"

definition upper_char :: "char \<Rightarrow> char" where
  "upper_char c =
     (let n = (of_char c :: nat) in if 97 \<le> n \<and> n \<le> 122 then char_of (n - 32) else c)"

definition lower_char :: "char \<Rightarrow> char" where
  "lower_char c =
     (let n = (of_char c :: nat) in if 65 \<le> n \<and> n \<le> 90 then char_of (n + 32) else c)"

definition upper :: "string \<Rightarrow> string" where
  "upper s = map upper_char s"

definition lower :: "string \<Rightarrow> string" where
  "lower s = map lower_char s"

definition or_empty :: "string option \<Rightarrow> string" where
  \<comment> \<open>\<open>(value or "")\<close> for a value that is a \<open>str\<close> or \<open>None\<close>\<close>
  "or_empty v = (case v of None \<Rightarrow> [] | Some s \<Rightarrow> s)"

section \<open>Python values and exceptions\<close>

datatype py_error =
    RuntimeError string
  | ValueError string
  | External string  \<comment> \<open>an exception raised by an external collaborator, with its message\<close>

text \<open>
  Python values as the tools see them through \<open>float()\<close>. Python floats are modelled as
  exact rationals: rounding error, infinities and NaN of IEEE doubles are outside the model.
  \<^item> \<open>PyNum x\<close>: a value that \<open>float()\<close> converts (a float, an int, a numeric str),
    carried as the number it converts to;
  \<^item> \<open>PyText s\<close>: a str that \<open>float()\<close> rejects with ValueError, such as \<open>"N/A"\<close>;
  \<^item> \<open>PyObj r\<close>: any other object, which \<open>float()\<close> rejects with TypeError; \<open>r\<close> is its \<open>str()\<close>.
\<close>

datatype pyval = PyNone | PyNum rat | PyText string | PyObj string

section \<open>Input normalisation (main.py)\<close>

definition normalize_market :: "string option \<Rightarrow> string" where
  "normalize_market v =
     (let raw = lower (strip (or_empty v))
      in if raw \<in> set [''india'', ''indian'', ''in'', ''nse'', ''bse''] then ''india''
         else ''global'')"

definition normalize_exchange_preference :: "string option \<Rightarrow> string" where
  "normalize_exchange_preference v =
     (let raw = upper (strip (or_empty v))
      in if raw \<in> set [''BSE'', ''BO'', ''.BO''] then ''BSE'' else ''NSE'')"

definition normalize_input_ticker :: "string option \<Rightarrow> string \<Rightarrow> string \<Rightarrow> string" where
  "normalize_input_ticker ticker market exchange_preference =
     (let normalized = upper (strip (or_empty ticker))
      in if normalized = [] \<or> CHR ''.'' \<in> set normalized then normalized
         else if normalize_market (Some market) = ''india'' then
           (let exchange = normalize_exchange_preference (Some exchange_preference);
                suffix = (if exchange = ''BSE'' then ''.BO'' else ''.NS'')
            in normalized @ suffix)
         else normalized)"

section \<open>Ticker resolution (finance_tools.py)\<close>

fun dedupe_append :: "string list \<Rightarrow> string list \<Rightarrow> string list" where
  \<comment> \<open>the loop \<open>for symbol in ordered: if symbol not in deduped: deduped.append(symbol)\<close>\<close>
  "dedupe_append deduped [] = deduped"
| "dedupe_append deduped (symbol # rest) =
     (if symbol \<in> set deduped then dedupe_append deduped rest
      else dedupe_append (deduped @ [symbol]) rest)"


subsection \<open>Resolving a candidate to a data-source handle\<close>

datatype info_result = InfoRaises | InfoNone | InfoDict "string \<rightharpoonup> pyval"










section \<open>Financial data normalisation (finance_tools.py)\<close>










definition label_key :: "string \<Rightarrow> string" where
  "label_key item = lower (strip item)"

definition build_lookup :: "string list \<Rightarrow> (string \<rightharpoonup> string)" where
  \<comment> \<open>the dict comprehension \<open>{str(item).strip().lower(): item for item in index_values}\<close>\<close>
  "build_lookup index_values = foldl (\<lambda>m item. m(label_key item \<mapsto> item)) Map.empty index_values"






section \<open>Price snapshot (finance_tools.py)\<close>








section \<open>News search (news_tools.py)\<close>

record raw_item =
  \<comment> \<open>a search record; each field is a str, or \<open>None\<close> when it is missing\<close>
  r_title :: "string option"
  r_url :: "string option"
  r_published_date :: "string option"
  r_publishedDate :: "string option"
  r_summary :: "string option"
  r_text :: "string option"

record article =
  title :: string
  url :: string
  published_date :: string
  summary :: string

definition safe_str :: "string option \<Rightarrow> string" where
  "safe_str v =
     (case v of
        None \<Rightarrow> ''N/A''
      | Some s \<Rightarrow> (let text = strip s in if text \<noteq> [] then text else ''N/A''))"

definition py_or :: "string option \<Rightarrow> string option \<Rightarrow> string option" where
  \<comment> \<open>\<open>a or b\<close>: \<open>None\<close> and the empty string are falsy\<close>
  "py_or a b = (case a of None \<Rightarrow> b | Some s \<Rightarrow> if s = [] then b else Some s)"

definition normalize_item :: "raw_item \<Rightarrow> article" where
  "normalize_item item =
     \<lparr> title = safe_str (r_title item),
       url = safe_str (r_url item),
       published_date = safe_str (py_or (r_published_date item) (r_publishedDate item)),
       summary = take 500 (safe_str (py_or (r_summary item) (r_text item))) \<rparr>"

definition normalize_results :: "raw_item list option \<Rightarrow> article list" where
  "normalize_results raw_results =
     (case raw_results of None \<Rightarrow> [] | Some records \<Rightarrow> map normalize_item records)"

fun dedupe_loop :: "article list \<Rightarrow> string set \<Rightarrow> article list \<Rightarrow> article list" where
  "dedupe_loop deduped seen [] = deduped"
| "dedupe_loop deduped seen (a # rest) =
     (let key = url a
      in if key \<in> seen then dedupe_loop deduped seen rest
         else dedupe_loop (deduped @ [a]) (insert key seen) rest)"

definition deduplicate_articles :: "article list \<Rightarrow> article list" where
  "deduplicate_articles articles = dedupe_loop [] {} articles"

record news_bundle =
  priority_results_count :: nat
  total_results_count :: nat
  fallback_used :: bool
  source_confidence :: string
  articles :: "article list"
  data_quality_notes :: "string list"

definition minimum_priority_results :: nat where
  "minimum_priority_results = 3"

text \<open>
  The part of \<open>CompanyNewsSearchTool._run\<close> after the queries are built. The two arguments
  are what the search backend does for the priority query and for the broad query (it
  raises, or returns raw results); the broad query is only issued when the priority tier
  is thin.
\<close>

definition company_news_search_run ::
  "py_error + raw_item list option \<Rightarrow> py_error + raw_item list option \<Rightarrow> py_error + news_bundle"
where
  "company_news_search_run priority_search broad_search =
     (case priority_search of
        Inl exc \<Rightarrow> Inl exc
      | Inr priority_raw \<Rightarrow>
          (let priority_articles = normalize_results priority_raw;
               fallback = (length priority_articles < minimum_priority_results)
           in case (if fallback then broad_search else Inr None) of
                Inl exc \<Rightarrow> Inl exc
              | Inr broad_raw \<Rightarrow>
                  (let broad_articles = (if fallback then normalize_results broad_raw else []);
                       confidence1 = (if fallback then ''medium'' else ''high'');
                       notes1 = (if fallback then
                           [''Priority-domain coverage was limited; broad web fallback was used.'']
                         else []);
                       arts = take 15 (deduplicate_articles (priority_articles @ broad_articles));
                       confidence2 = (if arts = [] then ''low'' else confidence1);
                       notes2 = (if arts = [] then
                           notes1 @ [''No recent news articles were returned by Exa.'']
                         else notes1)
                   in Inr \<lparr> priority_results_count = length priority_articles,
                            total_results_count = length arts,
                            fallback_used = fallback,
                            source_confidence = confidence2,
                            articles = arts,
                            data_quality_notes = notes2 \<rparr>)))"

section \<open>Pipeline runner (gui.py)\<close>

type_synonym environ = "string \<rightharpoonup> string"

definition getenv :: "environ \<Rightarrow> string \<Rightarrow> string \<Rightarrow> string" where
  \<comment> \<open>\<open>os.getenv(name, default)\<close>\<close>
  "getenv env name dflt = (case env name of None \<Rightarrow> dflt | Some v \<Rightarrow> v)"

definition env_stripped :: "environ \<Rightarrow> string \<Rightarrow> string" where
  \<comment> \<open>\<open>_env(name)\<close> of main.py, without a default\<close>
  "env_stripped env name = (case env name of None \<Rightarrow> [] | Some v \<Rightarrow> strip v)"

fun split_on :: "char \<Rightarrow> string \<Rightarrow> string list" where
  \<comment> \<open>\<open>str.split(sep)\<close> for a one-character separator\<close>
  "split_on sep [] = [[]]"
| "split_on sep (c # cs) =
     (if c = sep then [] # split_on sep cs
      else (case split_on sep cs of [] \<Rightarrow> [[c]] | w # ws \<Rightarrow> (c # w) # ws))"

definition candidate_openrouter_models :: "environ \<Rightarrow> string list" where
  "candidate_openrouter_models env =
     (let primary = strip (getenv env ''OPENROUTER_MODEL'' []);
          fallback_csv = strip (getenv env ''OPENROUTER_MODEL_FALLBACKS'' []);
          candidates =
            (if primary \<noteq> [] then [primary] else []) @
            (if fallback_csv \<noteq> [] then
               map strip (filter (\<lambda>model. strip model \<noteq> []) (split_on CHR '','' fallback_csv))
             else [])
      in dedupe_append [] candidates)"

definition is_rate_limit_error :: "string \<Rightarrow> bool" where
  "is_rate_limit_error error_message =
     (let lowered = lower error_message
      in sublist ''ratelimiterror'' lowered
         \<or> sublist ''rate limit'' lowered
         \<or> sublist ''temporarily rate-limited'' lowered
         \<or> sublist ([CHR 0x22] @ ''code'' @ [CHR 0x22] @ '':429'') lowered
         \<or> sublist '' code:429'' lowered)"

definition is_free_model_policy_error :: "string \<Rightarrow> bool" where
  "is_free_model_policy_error error_message =
     (let lowered = lower error_message
      in sublist ''no endpoints found matching your data policy'' lowered
         \<or> sublist ''free model publication'' lowered
         \<or> sublist ''configure: https://openrouter.ai/settings/privacy'' lowered)"

definition is_model_switchable_error :: "string \<Rightarrow> bool" where
  "is_model_switchable_error error_message =
     (is_rate_limit_error error_message \<or> is_free_model_policy_error error_message)"

definition is_readonly_database_error :: "string \<Rightarrow> bool" where
  \<comment> \<open>\<open>"readonly database" in kickoff_message_lower\<close>\<close>
  "is_readonly_database_error error_message = sublist ''readonly database'' (lower error_message)"

definition retry_delays :: "nat list" where
  "retry_delays = [3, 8, 15, 25]"

datatype kick_result =
    BuildRaises string            \<comment> \<open>\<open>AutomationCrew().crew()\<close> raises, with this message\<close>
  | KickoffRaises string          \<comment> \<open>\<open>kickoff\<close> raises, with this message\<close>
  | KickoffReturns "string option"  \<comment> \<open>\<open>kickoff\<close> returns a result, or \<open>None\<close>\<close>

datatype progress =
    SwitchingModel nat string string bool
      \<comment> \<open>attempt, current model, next model, whether the provider blocked by policy\<close>
  | WaitingForRetry nat nat string
      \<comment> \<open>the attempt to come, seconds slept, model\<close>

record run_state =
  rs_env :: environ               \<comment> \<open>the process environment\<close>
  rs_executed :: "string list"    \<comment> \<open>the model of every \<open>kickoff\<close> so far, in order\<close>
  rs_events :: "progress list"    \<comment> \<open>the progress tuples yielded so far\<close>

type_synonym executor = "string \<Rightarrow> bool \<Rightarrow> nat \<Rightarrow> kick_result"
  \<comment> \<open>what building a crew and calling \<open>kickoff\<close> does, given the model in the environment,
      whether the no-op storage handler is installed, and how many kickoffs came before\<close>

definition set_model :: "string \<Rightarrow> run_state \<Rightarrow> run_state" where
  "set_model m s = s\<lparr>rs_env := (rs_env s)(''OPENROUTER_MODEL'' \<mapsto> m)\<rparr>"

definition executed :: "string \<Rightarrow> run_state \<Rightarrow> run_state" where
  "executed m s = s\<lparr>rs_executed := rs_executed s @ [m]\<rparr>"

definition yielded :: "progress \<Rightarrow> run_state \<Rightarrow> run_state" where
  "yielded ev s = s\<lparr>rs_events := rs_events s @ [ev]\<rparr>"

text \<open>
  The \<open>while\<close> loop of \<open>run_workflow\<close> with its inner \<open>for\<close> loop over the candidate models.
  The fifth argument is the part of the model list the \<open>for\<close> loop has still to visit. The
  result is \<open>Inl\<close> for an exception that leaves the loop and \<open>Inr result\<close> when the loop ends
  normally. After a rate-limit wait the \<open>while\<close> test \<open>attempt <= max_attempts\<close> holds because
  \<open>attempt < max_attempts\<close> held before the increment, and \<open>result\<close> is still \<open>None\<close>, so the
  \<open>for\<close> loop starts again from the first model.
\<close>

function for_models ::
  "executor \<Rightarrow> string list \<Rightarrow> nat \<Rightarrow> nat \<Rightarrow> string list \<Rightarrow> run_state \<Rightarrow>
   (py_error + string option) \<times> run_state"
where
  "for_models kick models max_attempts attempt [] s = (Inr None, s)"
| "for_models kick models max_attempts attempt (candidate_model # rest) s =
     (let s1 = set_model candidate_model s
      in case kick candidate_model False (length (rs_executed s1)) of
           BuildRaises m \<Rightarrow> (Inl (External m), s1)
         | KickoffReturns r \<Rightarrow> (Inr r, executed candidate_model s1)
         | KickoffRaises m \<Rightarrow>
             (let s2 = executed candidate_model s1
              in if is_readonly_database_error m then
                   (case kick candidate_model True (length (rs_executed s2)) of
                      BuildRaises m' \<Rightarrow> (Inl (External m'), s2)
                    | KickoffReturns r \<Rightarrow> (Inr r, executed candidate_model s2)
                    | KickoffRaises m' \<Rightarrow> (Inl (External m'), executed candidate_model s2))
                 else if is_model_switchable_error m \<and> rest \<noteq> [] then
                   for_models kick models max_attempts attempt rest
                     (yielded (SwitchingModel attempt candidate_model (hd rest)
                                 (is_free_model_policy_error m)) s2)
                 else if is_model_switchable_error m \<and> is_rate_limit_error m
                         \<and> attempt < max_attempts then
                   for_models kick models max_attempts (attempt + 1) models
                     (yielded (WaitingForRetry (attempt + 1)
                                 (retry_delays ! min (attempt - 1) (length retry_delays - 1))
                                 candidate_model) s2)
                 else (Inl (External m), s2)))"
  by pat_completeness auto
termination
  by (relation "measures [\<lambda>(kick, models, max_attempts, attempt, rest, s). max_attempts - attempt,
                          \<lambda>(kick, models, max_attempts, attempt, rest, s). length rest]") auto

definition coerce_int :: "int option \<Rightarrow> int \<Rightarrow> int" where
  \<comment> \<open>\<open>_coerce_int\<close>, given what \<open>int(value)\<close> does: a number, or \<open>None\<close> when it raises\<close>
  "coerce_int parsed dflt = (case parsed of Some p \<Rightarrow> if p > 0 then p else dflt | None \<Rightarrow> dflt)"

fun join_with :: "string \<Rightarrow> string list \<Rightarrow> string" where
  "join_with sep [] = []"
| "join_with sep [x] = x"
| "join_with sep (x # y # ys) = x @ sep @ join_with sep (y # ys)"

definition validate_runtime_environment :: "environ \<Rightarrow> string \<Rightarrow> string \<Rightarrow> py_error option" where
  \<comment> \<open>called with the \<open>inputs\<close> dict, of which it reads \<open>ticker\<close> and \<open>company_name\<close>;
      \<open>None\<close> when it returns without raising\<close>
  "validate_runtime_environment env ticker company_name =
     (let missing =
            filter (\<lambda>name. env_stripped env name = []) [''OPENROUTER_API_KEY'', ''OPENROUTER_MODEL'']
            @ (if strip ticker = [] then [''COMPANY_TICKER (or inputs['' @ [CHR 0x27] @ ''ticker''
                                          @ [CHR 0x27] @ ''])''] else [])
            @ (if strip company_name = [] then [''COMPANY_NAME (or inputs['' @ [CHR 0x27]
                                          @ ''company_name'' @ [CHR 0x27] @ ''])''] else [])
      in if missing \<noteq> [] then
           Some (ValueError (''Missing required configuration: '' @ join_with '', '' missing
                             @ ''. Check your .env file before running the crew.''))
         else None)"

text \<open>
  The body of \<open>run_workflow\<close> from the validation to the check of the result: the retry loop
  inside \<open>try\<close>, the \<open>finally\<close> clause that writes \<open>OPENROUTER_MODEL\<close> back, and the
  error for a missing result. \<open>retries\<close> is what \<open>int()\<close> makes of \<open>GUI_RATE_LIMIT_RETRIES\<close>
  (of \<open>"3"\<close> when the variable is unset), or \<open>None\<close> when \<open>int()\<close> raises. Building a crew and
  running it are taken to leave the process environment alone: in this repository they
  only read it.
\<close>

definition run_workflow ::
  "executor \<Rightarrow> environ \<Rightarrow> string \<Rightarrow> string \<Rightarrow> int option \<Rightarrow> (py_error + string) \<times> run_state"
where
  "run_workflow kick env ticker company_name retries =
     (let s0 = \<lparr> rs_env = env, rs_executed = [], rs_events = [] \<rparr>
      in case validate_runtime_environment env ticker company_name of
           Some exc \<Rightarrow> (Inl exc, s0)
         | None \<Rightarrow>
             (let max_attempts = nat (max 1 (coerce_int retries 3));
                  candidate_models = candidate_openrouter_models env;
                  original_model = getenv env ''OPENROUTER_MODEL'' [];
                  models = (if candidate_models \<noteq> [] then candidate_models else [original_model]);
                  (outcome, s) = for_models kick models max_attempts 1 models s0;
                  s' = (if original_model \<noteq> [] then set_model original_model s else s)
              in case outcome of
                   Inl exc \<Rightarrow> (Inl exc, s')
                 | Inr None \<Rightarrow> (Inl (RuntimeError ''Crew execution did not produce a result.''), s')
                 | Inr (Some result) \<Rightarrow> (Inr result, s')))"

section \<open>Properties of the string operations\<close>

lemma is_space_upper_char [simp]: "is_space (upper_char c) = is_space c"
  unfolding is_space_def upper_char_def Let_def
  by (auto simp: of_char_of split: if_splits)

lemma upper_char_idem [simp]: "upper_char (upper_char c) = upper_char c"
  unfolding upper_char_def Let_def
  by (auto simp: of_char_of split: if_splits)

lemma upper_idem [simp]: "upper (upper s) = upper s"
  by (simp add: upper_def)

lemma upper_Nil_iff [simp]: "upper s = [] \<longleftrightarrow> s = []"
  by (simp add: upper_def)

lemma upper_append: "upper (s @ t) = upper s @ upper t"
  by (simp add: upper_def)

lemma dropWhile_space_upper:
  "dropWhile is_space (map upper_char s) = map upper_char (dropWhile is_space s)"
  by (induction s) auto

lemma strip_upper: "strip (upper s) = upper (strip s)"
  by (simp add: strip_def upper_def dropWhile_space_upper rev_map)

lemma dropWhile_hd_fixed: "xs = [] \<or> \<not> P (hd xs) \<Longrightarrow> dropWhile P xs = xs"
  by (cases xs) auto

lemma last_dropWhile: "dropWhile P xs \<noteq> [] \<Longrightarrow> last (dropWhile P xs) = last xs"
  by (induction xs) (auto split: if_splits)

lemma hd_dropWhile_not: "dropWhile P xs \<noteq> [] \<Longrightarrow> \<not> P (hd (dropWhile P xs))"
  by (induction xs) auto

lemma strip_fixed:
  assumes "s = [] \<or> (\<not> is_space (hd s) \<and> \<not> is_space (last s))"
  shows "strip s = s"
proof (cases "s = []")
  case True
  then show ?thesis by (simp add: strip_def)
next
  case False
  with assms have h: "\<not> is_space (hd s)" and l: "\<not> is_space (last s)" by auto
  have a: "dropWhile is_space s = s"
    using h by (intro dropWhile_hd_fixed) simp
  have "hd (rev s) = last s" by (simp add: hd_rev)
  then have b: "dropWhile is_space (rev s) = rev s"
    using l by (intro dropWhile_hd_fixed) simp
  show ?thesis unfolding strip_def a b by simp
qed

lemma strip_stripped:
  "strip s = [] \<or> (\<not> is_space (hd (strip s)) \<and> \<not> is_space (last (strip s)))"
proof (cases "strip s = []")
  case True
  then show ?thesis by simp
next
  case False
  define t where "t = dropWhile is_space s"
  define u where "u = dropWhile is_space (rev t)"
  have s: "strip s = rev u" by (simp add: strip_def t_def u_def)
  with False have u: "u \<noteq> []" by simp
  then have t: "t \<noteq> []" by (auto simp: u_def)
  have "\<not> is_space (hd u)" using u unfolding u_def by (rule hd_dropWhile_not)
  then have l: "\<not> is_space (last (rev u))" using u by (simp add: last_rev)
  have "last u = last (rev t)" using u unfolding u_def by (rule last_dropWhile)
  also have "\<dots> = hd t" using t by (simp add: last_rev)
  finally have "last u = hd t" .
  moreover have "\<not> is_space (hd t)" using t unfolding t_def by (rule hd_dropWhile_not)
  ultimately have "\<not> is_space (hd (rev u))" using u by (simp add: hd_rev)
  with l s show ?thesis by simp
qed

lemma strip_idem [simp]: "strip (strip s) = strip s"
  using strip_stripped by (rule strip_fixed)

lemma upper_strip_fixed [simp]: "upper (strip (upper (strip s))) = upper (strip s)"
  by (simp add: strip_upper)

lemma upper_char_dot: "upper_char c = CHR ''.'' \<longleftrightarrow> c = CHR ''.''"
proof
  assume "c = CHR ''.''"
  then show "upper_char c = CHR ''.''" by (simp add: upper_char_def)
next
  assume a: "upper_char c = CHR ''.''"
  show "c = CHR ''.''"
  proof (cases "97 \<le> (of_char c :: nat) \<and> (of_char c :: nat) \<le> 122")
    case True
    then have "upper_char c = char_of ((of_char c :: nat) - 32)"
      by (simp add: upper_char_def)
    with a have "(of_char (char_of ((of_char c :: nat) - 32) :: char) :: nat) = of_char (CHR ''.'')"
      by simp
    then have "((of_char c :: nat) - 32) mod 256 = 46"
      by (simp add: of_char_of)
    with True show ?thesis by auto
  next
    case False
    with a show ?thesis by (simp add: upper_char_def)
  qed
qed

lemma dot_in_upper [simp]: "CHR ''.'' \<in> set (upper s) \<longleftrightarrow> CHR ''.'' \<in> set s"
proof -
  have "CHR ''.'' \<in> set (upper s) \<longleftrightarrow> (\<exists>c \<in> set s. upper_char c = CHR ''.'')"
    unfolding upper_def set_map image_iff by metis
  then show ?thesis by (simp add: upper_char_dot)
qed

lemma in_set_dropWhile: "x \<in> set xs \<Longrightarrow> \<not> P x \<Longrightarrow> x \<in> set (dropWhile P xs)"
  by (induction xs) auto

lemma dot_in_strip [simp]: "CHR ''.'' \<in> set (strip s) \<longleftrightarrow> CHR ''.'' \<in> set s"
proof
  assume "CHR ''.'' \<in> set (strip s)"
  then have "CHR ''.'' \<in> set (dropWhile is_space (rev (dropWhile is_space s)))"
    by (simp add: strip_def)
  then have "CHR ''.'' \<in> set (rev (dropWhile is_space s))"
    by (rule set_dropWhileD)
  then have "CHR ''.'' \<in> set (dropWhile is_space s)"
    by simp
  then show "CHR ''.'' \<in> set s"
    by (rule set_dropWhileD)
next
  have ns: "\<not> is_space CHR ''.''" by (simp add: is_space_def)
  assume "CHR ''.'' \<in> set s"
  then have "CHR ''.'' \<in> set (dropWhile is_space s)"
    using ns by (rule in_set_dropWhile)
  then have "CHR ''.'' \<in> set (rev (dropWhile is_space s))" by simp
  then have "CHR ''.'' \<in> set (dropWhile is_space (rev (dropWhile is_space s)))"
    using ns by (rule in_set_dropWhile)
  then show "CHR ''.'' \<in> set (strip s)" by (simp add: strip_def)
qed

lemma suffixed_fixed:
  assumes "n = upper (strip s)" "n \<noteq> []" "sfx = ''.BO'' \<or> sfx = ''.NS''"
  shows "upper (strip (n @ sfx)) = n @ sfx"
proof -
  have n: "strip n = n" using assms(1) by (simp add: strip_upper[symmetric])
  then have "\<not> is_space (hd n)" using strip_stripped[of n] assms(2) by simp
  moreover have "\<not> is_space (last (n @ sfx))" using assms(3) by (auto simp: is_space_def)
  moreover have "hd (n @ sfx) = hd n" using assms(2) by simp
  ultimately have "strip (n @ sfx) = n @ sfx" by (intro strip_fixed) simp
  moreover have "upper sfx = sfx" using assms(3) by (auto simp: upper_def upper_char_def)
  moreover have "upper n = n" using assms(1) by simp
  ultimately show ?thesis by (simp add: upper_append)
qed

lemma normalize_market_values:
  "normalize_market (Some ''india'') = ''india''" "normalize_market (Some ''global'') = ''global''"
  by code_simp+

lemma normalize_exchange_values:
  "normalize_exchange_preference (Some ''BSE'') = ''BSE''"
  "normalize_exchange_preference (Some ''NSE'') = ''NSE''"
  by code_simp+

section \<open>Input normalisation is idempotent\<close>

text \<open>
  C9. The input-normalisation functions of main.py are idempotent: applying
  \<open>normalize_market\<close>, \<open>normalize_exchange_preference\<close> or \<open>normalize_input_ticker\<close>
  (the latter with the market and exchange arguments kept fixed) to its own output gives
  that output again, for every input, \<open>None\<close> included.
\<close>

theorem normalization_idempotent:
  "normalize_market (Some (normalize_market v)) = normalize_market v
   \<and> normalize_exchange_preference (Some (normalize_exchange_preference w))
       = normalize_exchange_preference w
   \<and> normalize_input_ticker (Some (normalize_input_ticker t market exchange)) market exchange
       = normalize_input_ticker t market exchange"
proof (intro conjI)
  show "normalize_market (Some (normalize_market v)) = normalize_market v"
  proof (cases "normalize_market v = ''india''")
    case True
    then show ?thesis by (simp add: normalize_market_values)
  next
    case False
    then have "normalize_market v = ''global''"
      by (simp add: normalize_market_def Let_def split: if_splits)
    then show ?thesis by (simp add: normalize_market_values)
  qed
next
  show "normalize_exchange_preference (Some (normalize_exchange_preference w))
          = normalize_exchange_preference w"
  proof (cases "normalize_exchange_preference w = ''BSE''")
    case True
    then show ?thesis by (simp add: normalize_exchange_values)
  next
    case False
    then have "normalize_exchange_preference w = ''NSE''"
      by (simp add: normalize_exchange_preference_def Let_def split: if_splits)
    then show ?thesis by (simp add: normalize_exchange_values)
  qed
next
  define n where "n = upper (strip (or_empty t))"
  have fixed: "upper (strip n) = n" by (simp add: n_def)
  show "normalize_input_ticker (Some (normalize_input_ticker t market exchange)) market exchange
          = normalize_input_ticker t market exchange"
  proof (cases "n = [] \<or> CHR ''.'' \<in> set n")
    case True
    then have "normalize_input_ticker t market exchange = n"
      by (auto simp: normalize_input_ticker_def n_def[symmetric] Let_def)
    moreover from True have "normalize_input_ticker (Some n) market exchange = n"
      using fixed by (auto simp: normalize_input_ticker_def or_empty_def Let_def)
    ultimately show ?thesis by simp
  next
    case plain: False
    show ?thesis
    proof (cases "normalize_market (Some market) = ''india''")
      case True
      define sfx where
        "sfx = (if normalize_exchange_preference (Some exchange) = ''BSE'' then ''.BO'' else ''.NS'')"
      have sfx: "sfx = ''.BO'' \<or> sfx = ''.NS''" by (simp add: sfx_def)
      have r: "normalize_input_ticker t market exchange = n @ sfx"
        using plain True
        by (simp add: normalize_input_ticker_def n_def[symmetric] sfx_def Let_def)
      have f: "upper (strip (n @ sfx)) = n @ sfx"
        using suffixed_fixed[OF n_def _ sfx] plain by simp
      have "CHR ''.'' \<in> set (n @ sfx)" using sfx by auto
      then have "normalize_input_ticker (Some (n @ sfx)) market exchange = n @ sfx"
        using f by (simp add: normalize_input_ticker_def or_empty_def Let_def)
      with r show ?thesis by simp
    next
      case False
      then have "normalize_input_ticker t market exchange = n"
        using plain by (simp add: normalize_input_ticker_def n_def[symmetric] Let_def)
      moreover have "normalize_input_ticker (Some n) market exchange = n"
        using plain False fixed by (simp add: normalize_input_ticker_def or_empty_def Let_def)
      ultimately show ?thesis by simp
    qed
  qed
qed

section \<open>Candidate symbols\<close>

lemma dedupe_append_three:
  "a \<noteq> b \<Longrightarrow> a \<noteq> c \<Longrightarrow> b \<noteq> c \<Longrightarrow> dedupe_append [] [a, b, c] = [a, b, c]"
  by simp






section \<open>Ticker resolution\<close>














section \<open>News search\<close>

lemma dedupe_loop_keys:
  "dedupe_loop deduped seen arts =
     deduped @ dedupe_loop [] seen arts"
proof (induction arts arbitrary: deduped seen)
  case Nil
  then show ?case by simp
next
  case (Cons a arts)
  show ?case
  proof (cases "url a \<in> seen")
    case True
    then show ?thesis using Cons.IH[of deduped seen] by simp
  next
    case False
    then show ?thesis
      using Cons.IH[of "deduped @ [a]" "insert (url a) seen"] Cons.IH[of "[a]" "insert (url a) seen"]
      by simp
  qed
qed

lemma dedupe_loop_seen_absent:
  "k \<in> seen \<Longrightarrow> filter (\<lambda>a. url a = k) (dedupe_loop [] seen arts) = []"
proof (induction arts arbitrary: seen)
  case Nil
  then show ?case by simp
next
  case (Cons a arts)
  show ?case
  proof (cases "url a \<in> seen")
    case True
    then show ?thesis using Cons by simp
  next
    case False
    then have "url a \<noteq> k" using Cons.prems by auto
    moreover have "filter (\<lambda>a. url a = k) (dedupe_loop [] (insert (url a) seen) arts) = []"
      using Cons.prems by (intro Cons.IH) simp
    ultimately show ?thesis
      using False dedupe_loop_keys[of "[a]" "insert (url a) seen" arts] by simp
  qed
qed

lemma dedupe_loop_at_most_one:
  "length (filter (\<lambda>a. url a = k) (dedupe_loop [] seen arts)) \<le> 1"
proof (induction arts arbitrary: seen)
  case Nil
  then show ?case by simp
next
  case (Cons a arts)
  show ?case
  proof (cases "url a \<in> seen")
    case True
    then show ?thesis using Cons.IH[of seen] by simp
  next
    case False
    have split: "dedupe_loop [] seen (a # arts) = a # dedupe_loop [] (insert (url a) seen) arts"
      using False dedupe_loop_keys[of "[a]" "insert (url a) seen" arts] by simp
    show ?thesis
    proof (cases "url a = k")
      case True
      then have "filter (\<lambda>a. url a = k) (dedupe_loop [] (insert (url a) seen) arts) = []"
        by (intro dedupe_loop_seen_absent) simp
      then show ?thesis using True split by simp
    next
      case False
      then show ?thesis using split Cons.IH[of "insert (url a) seen"] by simp
    qed
  qed
qed

lemma deduplicate_at_most_one:
  "length (filter (\<lambda>a. url a = k) (deduplicate_articles arts)) \<le> 1"
  unfolding deduplicate_articles_def by (rule dedupe_loop_at_most_one)

lemma filter_take_length: "length (filter P (take n xs)) \<le> length (filter P xs)"
proof -
  have "length (filter P xs) = length (filter P (take n xs)) + length (filter P (drop n xs))"
    by (metis append_take_drop_id filter_append length_append)
  then show ?thesis by simp
qed


lemma deduplicate_Nil_iff: "deduplicate_articles arts = [] \<longleftrightarrow> arts = []"
proof (cases arts)
  case Nil
  then show ?thesis by (simp add: deduplicate_articles_def)
next
  case (Cons a rest)
  then show ?thesis
    using dedupe_loop_keys[of "[a]" "{url a}" rest] by (simp add: deduplicate_articles_def)
qed

lemma company_news_search_bundle:
  assumes "company_news_search_run (Inr priority_raw) broad_search = Inr payload"
  shows "\<exists>broad_articles.
           (if length (normalize_results priority_raw) < 3
            then \<exists>broad_raw. broad_search = Inr broad_raw
                   \<and> broad_articles = normalize_results broad_raw
            else broad_articles = [])
         \<and> payload =
             \<lparr> priority_results_count = length (normalize_results priority_raw),
               total_results_count = length (take 15 (deduplicate_articles
                  (normalize_results priority_raw @ broad_articles))),
               fallback_used = (length (normalize_results priority_raw) < 3),
               source_confidence =
                 (if take 15 (deduplicate_articles (normalize_results priority_raw @ broad_articles)) = []
                  then ''low''
                  else if length (normalize_results priority_raw) < 3 then ''medium'' else ''high''),
               articles = take 15 (deduplicate_articles
                  (normalize_results priority_raw @ broad_articles)),
               data_quality_notes =
                 (if length (normalize_results priority_raw) < 3
                  then [''Priority-domain coverage was limited; broad web fallback was used.'']
                  else [])
                 @ (if take 15 (deduplicate_articles (normalize_results priority_raw @ broad_articles)) = []
                    then [''No recent news articles were returned by Exa.''] else []) \<rparr>"
proof (cases "length (normalize_results priority_raw) < 3")
  case True
  with assms obtain broad_raw where b: "broad_search = Inr broad_raw"
    by (cases broad_search) (simp_all add: company_news_search_run_def minimum_priority_results_def Let_def)
  show ?thesis
    using assms True b
    by (intro exI[of _ "normalize_results broad_raw"])
       (auto simp: company_news_search_run_def minimum_priority_results_def Let_def)
next
  case False
  show ?thesis
    using assms False
    by (intro exI[of _ "[]"])
       (auto simp: company_news_search_run_def minimum_priority_results_def Let_def)
qed


text \<open>
  C2. For every news search that returns a result (neither query raised):
  \<open>fallback_used\<close> is true exactly when the priority query gave fewer than 3 articles; then the
  broad query is run and its articles are appended to the priority ones, otherwise only the
  priority articles are kept; the article list is that merge, deduplicated by url and cut
  to 15. The confidence is \<open>low\<close> when the article list is empty, else \<open>medium\<close> when the
  fallback was used, else \<open>high\<close>. The notes are the fallback note, when the fallback was
  used, followed by \<open>No recent news articles were returned by Exa.\<close>, when the list is
  empty. An empty list only arises with the fallback used.
\<close>

theorem company_news_search_confidence:
  "company_news_search_run (Inr priority_raw) broad_search = Inr payload \<Longrightarrow>
     fallback_used payload = (length (normalize_results priority_raw) < 3)
   \<and> priority_results_count payload = length (normalize_results priority_raw)
   \<and> (fallback_used payload \<longrightarrow>
        (\<exists>broad_raw. broad_search = Inr broad_raw
           \<and> articles payload = take 15 (deduplicate_articles
               (normalize_results priority_raw @ normalize_results broad_raw))))
   \<and> (\<not> fallback_used payload \<longrightarrow>
        articles payload = take 15 (deduplicate_articles (normalize_results priority_raw)))
   \<and> source_confidence payload =
        (if articles payload = [] then ''low''
         else if fallback_used payload then ''medium'' else ''high'')
   \<and> data_quality_notes payload =
        (if fallback_used payload
         then [''Priority-domain coverage was limited; broad web fallback was used.''] else [])
        @ (if articles payload = [] then [''No recent news articles were returned by Exa.''] else [])
   \<and> (articles payload = [] \<longrightarrow> fallback_used payload)
   \<and> total_results_count payload = length (articles payload)
   \<and> length (articles payload) \<le> 15"
proof -
  assume run: "company_news_search_run (Inr priority_raw) broad_search = Inr payload"
  from company_news_search_bundle[OF run] obtain broad_articles where
    b: "if length (normalize_results priority_raw) < 3
        then \<exists>broad_raw. broad_search = Inr broad_raw \<and> broad_articles = normalize_results broad_raw
        else broad_articles = []"
    and bdef: "payload =
             \<lparr> priority_results_count = length (normalize_results priority_raw),
               total_results_count = length (take 15 (deduplicate_articles
                  (normalize_results priority_raw @ broad_articles))),
               fallback_used = (length (normalize_results priority_raw) < 3),
               source_confidence =
                 (if take 15 (deduplicate_articles (normalize_results priority_raw @ broad_articles)) = []
                  then ''low''
                  else if length (normalize_results priority_raw) < 3 then ''medium'' else ''high''),
               articles = take 15 (deduplicate_articles
                  (normalize_results priority_raw @ broad_articles)),
               data_quality_notes =
                 (if length (normalize_results priority_raw) < 3
                  then [''Priority-domain coverage was limited; broad web fallback was used.'']
                  else [])
                 @ (if take 15 (deduplicate_articles (normalize_results priority_raw @ broad_articles)) = []
                    then [''No recent news articles were returned by Exa.''] else []) \<rparr>"
    by blast
  have f: "fallback_used payload = (length (normalize_results priority_raw) < 3)"
    by (simp add: bdef)
  have a: "articles payload = take 15 (deduplicate_articles (normalize_results priority_raw @ broad_articles))"
    by (simp add: bdef)
  have 1: "fallback_used payload \<longrightarrow>
        (\<exists>broad_raw. broad_search = Inr broad_raw
           \<and> articles payload = take 15 (deduplicate_articles
               (normalize_results priority_raw @ normalize_results broad_raw)))"
    using b f a by auto
  have 2: "\<not> fallback_used payload \<longrightarrow>
        articles payload = take 15 (deduplicate_articles (normalize_results priority_raw))"
    using b f a by auto
  have 3: "source_confidence payload =
        (if articles payload = [] then ''low''
         else if fallback_used payload then ''medium'' else ''high'')"
    unfolding a f by (simp add: bdef)
  have 4: "data_quality_notes payload =
        (if fallback_used payload
         then [''Priority-domain coverage was limited; broad web fallback was used.''] else [])
        @ (if articles payload = [] then [''No recent news articles were returned by Exa.''] else [])"
    unfolding a f by (simp add: bdef)
  have 5: "articles payload = [] \<longrightarrow> fallback_used payload"
  proof
    assume "articles payload = []"
    then have "deduplicate_articles (normalize_results priority_raw @ broad_articles) = []"
      unfolding a by simp
    then have "normalize_results priority_raw = []"
      by (simp add: deduplicate_Nil_iff)
    then show "fallback_used payload" by (simp add: f)
  qed
  have 6: "total_results_count payload = length (articles payload)" by (simp add: bdef)
  have 7: "length (articles payload) \<le> 15" unfolding a by simp
  have 0: "priority_results_count payload = length (normalize_results priority_raw)"
    by (simp add: bdef)
  from f 0 1 2 3 4 5 6 7 show ?thesis by blast
qed

theorem company_news_search_confidence_witness:
  "(\<exists>payload. company_news_search_run (Inr (Some [\<lparr>r_title = Some ''Q3 results'', r_url = Some ''https://a.example/1'', r_published_date = None, r_publishedDate = None, r_summary = None, r_text = None\<rparr>])) (Inr (Some [\<lparr>r_title = Some ''Guidance cut'', r_url = Some ''https://b.example/2'', r_published_date = None, r_publishedDate = None, r_summary = None, r_text = None\<rparr>])) = Inr payload
      \<and> fallback_used payload \<and> source_confidence payload = ''medium''
      \<and> total_results_count payload = 2)
   \<and> (\<exists>payload. company_news_search_run (Inr (Some [])) (Inr None) = Inr payload
      \<and> fallback_used payload \<and> source_confidence payload = ''low''
      \<and> data_quality_notes payload =
          [''Priority-domain coverage was limited; broad web fallback was used.'',
           ''No recent news articles were returned by Exa.''])
   \<and> (\<exists>payload. company_news_search_run (Inr (Some [\<lparr>r_title = Some ''Q3 results'', r_url = Some ''https://a.example/1'', r_published_date = None, r_publishedDate = None, r_summary = None, r_text = None\<rparr>, \<lparr>r_title = Some ''Guidance cut'', r_url = Some ''https://b.example/2'', r_published_date = None, r_publishedDate = None, r_summary = None, r_text = None\<rparr>, \<lparr>r_title = Some ''Buyback'', r_url = Some ''https://c.example/3'', r_published_date = None, r_publishedDate = None, r_summary = None, r_text = None\<rparr>])) (Inl (RuntimeError ''not called'')) = Inr payload
      \<and> \<not> fallback_used payload \<and> source_confidence payload = ''high''
      \<and> data_quality_notes payload = [])"
proof (intro conjI)
  obtain b1 where b1: "company_news_search_run (Inr (Some [\<lparr>r_title = Some ''Q3 results'', r_url = Some ''https://a.example/1'', r_published_date = None, r_publishedDate = None, r_summary = None, r_text = None\<rparr>])) (Inr (Some [\<lparr>r_title = Some ''Guidance cut'', r_url = Some ''https://b.example/2'', r_published_date = None, r_publishedDate = None, r_summary = None, r_text = None\<rparr>])) = Inr b1"
    by (simp add: company_news_search_run_def normalize_results_def minimum_priority_results_def Let_def)
  have l1: "length (normalize_results (Some [\<lparr>r_title = Some ''Q3 results'', r_url = Some ''https://a.example/1'', r_published_date = None, r_publishedDate = None, r_summary = None, r_text = None\<rparr>])) = 1"
    by (simp add: normalize_results_def)
  have d1: "take 15 (deduplicate_articles (normalize_results (Some [\<lparr>r_title = Some ''Q3 results'', r_url = Some ''https://a.example/1'', r_published_date = None, r_publishedDate = None, r_summary = None, r_text = None\<rparr>]) @ normalize_results (Some [\<lparr>r_title = Some ''Guidance cut'', r_url = Some ''https://b.example/2'', r_published_date = None, r_publishedDate = None, r_summary = None, r_text = None\<rparr>])))
       = [normalize_item \<lparr>r_title = Some ''Q3 results'', r_url = Some ''https://a.example/1'', r_published_date = None, r_publishedDate = None, r_summary = None, r_text = None\<rparr>, normalize_item \<lparr>r_title = Some ''Guidance cut'', r_url = Some ''https://b.example/2'', r_published_date = None, r_publishedDate = None, r_summary = None, r_text = None\<rparr>]"
    by code_simp
  from company_news_search_confidence[OF b1] l1 d1
  have "fallback_used b1 \<and> source_confidence b1 = ''medium'' \<and> total_results_count b1 = 2"
    by auto
  with b1 show "\<exists>payload. company_news_search_run (Inr (Some [\<lparr>r_title = Some ''Q3 results'', r_url = Some ''https://a.example/1'', r_published_date = None, r_publishedDate = None, r_summary = None, r_text = None\<rparr>])) (Inr (Some [\<lparr>r_title = Some ''Guidance cut'', r_url = Some ''https://b.example/2'', r_published_date = None, r_publishedDate = None, r_summary = None, r_text = None\<rparr>])) = Inr payload
      \<and> fallback_used payload \<and> source_confidence payload = ''medium''
      \<and> total_results_count payload = 2"
    by blast
next
  obtain b2 where b2: "company_news_search_run (Inr (Some [])) (Inr None) = Inr b2"
    by (simp add: company_news_search_run_def normalize_results_def minimum_priority_results_def Let_def)
  have d2: "take 15 (deduplicate_articles (normalize_results (Some []) @ normalize_results None)) = []"
    by code_simp
  from company_news_search_confidence[OF b2] d2
  have "fallback_used b2 \<and> source_confidence b2 = ''low''
      \<and> data_quality_notes b2 =
          [''Priority-domain coverage was limited; broad web fallback was used.'',
           ''No recent news articles were returned by Exa.'']"
    by (auto simp: normalize_results_def)
  with b2 show "\<exists>payload. company_news_search_run (Inr (Some [])) (Inr None) = Inr payload
      \<and> fallback_used payload \<and> source_confidence payload = ''low''
      \<and> data_quality_notes payload =
          [''Priority-domain coverage was limited; broad web fallback was used.'',
           ''No recent news articles were returned by Exa.'']"
    by blast
next
  obtain b3 where b3: "company_news_search_run (Inr (Some [\<lparr>r_title = Some ''Q3 results'', r_url = Some ''https://a.example/1'', r_published_date = None, r_publishedDate = None, r_summary = None, r_text = None\<rparr>, \<lparr>r_title = Some ''Guidance cut'', r_url = Some ''https://b.example/2'', r_published_date = None, r_publishedDate = None, r_summary = None, r_text = None\<rparr>, \<lparr>r_title = Some ''Buyback'', r_url = Some ''https://c.example/3'', r_published_date = None, r_publishedDate = None, r_summary = None, r_text = None\<rparr>])) (Inl (RuntimeError ''not called'')) = Inr b3"
    by (simp add: company_news_search_run_def normalize_results_def minimum_priority_results_def Let_def)
  have l3: "length (normalize_results (Some [\<lparr>r_title = Some ''Q3 results'', r_url = Some ''https://a.example/1'', r_published_date = None, r_publishedDate = None, r_summary = None, r_text = None\<rparr>, \<lparr>r_title = Some ''Guidance cut'', r_url = Some ''https://b.example/2'', r_published_date = None, r_publishedDate = None, r_summary = None, r_text = None\<rparr>, \<lparr>r_title = Some ''Buyback'', r_url = Some ''https://c.example/3'', r_published_date = None, r_publishedDate = None, r_summary = None, r_text = None\<rparr>])) = 3"
    by (simp add: normalize_results_def)
  have d3: "deduplicate_articles (normalize_results (Some [\<lparr>r_title = Some ''Q3 results'', r_url = Some ''https://a.example/1'', r_published_date = None, r_publishedDate = None, r_summary = None, r_text = None\<rparr>, \<lparr>r_title = Some ''Guidance cut'', r_url = Some ''https://b.example/2'', r_published_date = None, r_publishedDate = None, r_summary = None, r_text = None\<rparr>, \<lparr>r_title = Some ''Buyback'', r_url = Some ''https://c.example/3'', r_published_date = None, r_publishedDate = None, r_summary = None, r_text = None\<rparr>])) \<noteq> []"
    by (simp add: deduplicate_Nil_iff normalize_results_def)
  from company_news_search_confidence[OF b3] l3 d3
  have "\<not> fallback_used b3 \<and> source_confidence b3 = ''high'' \<and> data_quality_notes b3 = []"
    by auto
  with b3 show "\<exists>payload. company_news_search_run (Inr (Some [\<lparr>r_title = Some ''Q3 results'', r_url = Some ''https://a.example/1'', r_published_date = None, r_publishedDate = None, r_summary = None, r_text = None\<rparr>, \<lparr>r_title = Some ''Guidance cut'', r_url = Some ''https://b.example/2'', r_published_date = None, r_publishedDate = None, r_summary = None, r_text = None\<rparr>, \<lparr>r_title = Some ''Buyback'', r_url = Some ''https://c.example/3'', r_published_date = None, r_publishedDate = None, r_summary = None, r_text = None\<rparr>])) (Inl (RuntimeError ''not called'')) = Inr payload
      \<and> \<not> fallback_used payload \<and> source_confidence payload = ''high''
      \<and> data_quality_notes payload = []"
    by blast
qed

text \<open>
  C10. An article whose record has no url gets the url \<open>N/A\<close>. Deduplication keys on the url,
  so the article list of every result holds at most one article with the url \<open>N/A\<close>: of two
  records without url only the first survives, whatever their titles and contents.
\<close>

theorem urlless_articles_collapse:
  "(r_url item = None \<longrightarrow> url (normalize_item item) = ''N/A'')
   \<and> (company_news_search_run priority_search broad_search = Inr payload \<longrightarrow>
        length (filter (\<lambda>a. url a = ''N/A'') (articles payload)) \<le> 1)
   \<and> (r_url first = None \<and> r_url second = None \<longrightarrow>
        deduplicate_articles (normalize_results (Some [first, second])) = [normalize_item first])"
proof (intro conjI impI)
  assume "r_url item = None"
  then show "url (normalize_item item) = ''N/A''"
    by (simp add: normalize_item_def safe_str_def)
next
  assume run: "company_news_search_run priority_search broad_search = Inr payload"
  then obtain priority_raw where p: "priority_search = Inr priority_raw"
    by (cases priority_search) (simp_all add: company_news_search_run_def)
  from company_news_search_bundle[OF run[unfolded p]] obtain merged where
    "articles payload = take 15 (deduplicate_articles merged)"
    by auto
  then have "length (filter (\<lambda>a. url a = ''N/A'') (articles payload))
               \<le> length (filter (\<lambda>a. url a = ''N/A'') (deduplicate_articles merged))"
    by (simp add: filter_take_length)
  also have "\<dots> \<le> 1" by (rule deduplicate_at_most_one)
  finally show "length (filter (\<lambda>a. url a = ''N/A'') (articles payload)) \<le> 1" .
next
  assume "r_url first = None \<and> r_url second = None"
  then have "url (normalize_item first) = ''N/A''" "url (normalize_item second) = ''N/A''"
    by (simp_all add: normalize_item_def safe_str_def)
  then show "deduplicate_articles (normalize_results (Some [first, second])) = [normalize_item first]"
    by (simp add: deduplicate_articles_def normalize_results_def)
qed

theorem urlless_articles_collapse_witness:
  "r_url \<lparr>r_title = Some ''Q3 results'', r_url = None, r_published_date = None,
       r_publishedDate = None, r_summary = None, r_text = None\<rparr> = None
   \<and> r_url \<lparr>r_title = Some ''Guidance cut'', r_url = None, r_published_date = None,
       r_publishedDate = None, r_summary = None, r_text = None\<rparr> = None
   \<and> url (normalize_item \<lparr>r_title = Some ''Q3 results'', r_url = None, r_published_date = None,
       r_publishedDate = None, r_summary = None, r_text = None\<rparr>) = ''N/A''
   \<and> deduplicate_articles (normalize_results (Some [\<lparr>r_title = Some ''Q3 results'', r_url = None, r_published_date = None,
       r_publishedDate = None, r_summary = None, r_text = None\<rparr>,
         \<lparr>r_title = Some ''Guidance cut'', r_url = None, r_published_date = None,
       r_publishedDate = None, r_summary = None, r_text = None\<rparr>]))
       = [normalize_item \<lparr>r_title = Some ''Q3 results'', r_url = None, r_published_date = None,
       r_publishedDate = None, r_summary = None, r_text = None\<rparr>]
   \<and> company_news_search_run (Inr (Some [\<lparr>r_title = Some ''Q3 results'', r_url = None, r_published_date = None,
       r_publishedDate = None, r_summary = None, r_text = None\<rparr>]))
         (Inr (Some [\<lparr>r_title = Some ''Guidance cut'', r_url = None, r_published_date = None,
       r_publishedDate = None, r_summary = None, r_text = None\<rparr>,
                     \<lparr>r_title = Some ''Q3 results'', r_url = Some ''https://a.example/1'', r_published_date = None,
       r_publishedDate = None, r_summary = None, r_text = None\<rparr>]))
       = Inr \<lparr> priority_results_count = 1, total_results_count = 2, fallback_used = True,
               source_confidence = ''medium'',
               articles = [normalize_item \<lparr>r_title = Some ''Q3 results'', r_url = None, r_published_date = None,
       r_publishedDate = None, r_summary = None, r_text = None\<rparr>,
                           normalize_item \<lparr>r_title = Some ''Q3 results'', r_url = Some ''https://a.example/1'', r_published_date = None,
       r_publishedDate = None, r_summary = None, r_text = None\<rparr>],
               data_quality_notes =
                 [''Priority-domain coverage was limited; broad web fallback was used.''] \<rparr>
   \<and> length (filter (\<lambda>a. url a = ''N/A'')
         [normalize_item \<lparr>r_title = Some ''Q3 results'', r_url = None, r_published_date = None,
       r_publishedDate = None, r_summary = None, r_text = None\<rparr>,
          normalize_item \<lparr>r_title = Some ''Q3 results'', r_url = Some ''https://a.example/1'', r_published_date = None,
       r_publishedDate = None, r_summary = None, r_text = None\<rparr>]) \<le> 1"
proof -
  let ?N1 = "\<lparr>r_title = Some ''Q3 results'', r_url = None, r_published_date = None,
       r_publishedDate = None, r_summary = None, r_text = None\<rparr>"
  let ?N2 = "\<lparr>r_title = Some ''Guidance cut'', r_url = None, r_published_date = None,
       r_publishedDate = None, r_summary = None, r_text = None\<rparr>"
  let ?I1 = "\<lparr>r_title = Some ''Q3 results'', r_url = Some ''https://a.example/1'', r_published_date = None,
       r_publishedDate = None, r_summary = None, r_text = None\<rparr>"
  let ?B = "\<lparr> priority_results_count = 1, total_results_count = 2, fallback_used = True,
               source_confidence = ''medium'',
               articles = [normalize_item ?N1,
                           normalize_item ?I1],
               data_quality_notes =
                 [''Priority-domain coverage was limited; broad web fallback was used.''] \<rparr>"
  note w = urlless_articles_collapse[where item = ?N1 and first = ?N1 and second = ?N2
      and priority_search = "Inr (Some [?N1])" and broad_search = "Inr (Some [?N2, ?I1])"
      and payload = ?B]
  have h1: "r_url ?N1 = None" and h2: "r_url ?N2 = None" by simp_all
  have run: "company_news_search_run (Inr (Some [?N1])) (Inr (Some [?N2, ?I1])) = Inr ?B"
    by code_simp
  have g1: "url (normalize_item ?N1) = ''N/A''"
    using h1 by (rule w[THEN conjunct1, THEN mp])
  have "length (filter (\<lambda>a. url a = ''N/A'') (articles ?B)) \<le> 1"
    using run by (rule w[THEN conjunct2, THEN conjunct1, THEN mp])
  then have g2: "length (filter (\<lambda>a. url a = ''N/A'') [normalize_item ?N1, normalize_item ?I1]) \<le> 1"
    by (simp only: news_bundle.simps)
  have g3: "deduplicate_articles (normalize_results (Some [?N1, ?N2])) = [normalize_item ?N1]"
    using h1 h2 by (intro w[THEN conjunct2, THEN conjunct2, THEN mp] conjI)
  from h1 h2 g1 g3 run g2 show ?thesis by (intro conjI)
qed

section \<open>Percentage change\<close>



section \<open>Statement rows\<close>

lemma build_lookup_snoc:
  "build_lookup (idx @ [item]) = (build_lookup idx)(label_key item \<mapsto> item)"
  by (simp add: build_lookup_def)

lemma build_lookup_last:
  "build_lookup idx k =
     (if filter (\<lambda>item. label_key item = k) idx = [] then None
      else Some (last (filter (\<lambda>item. label_key item = k) idx)))"
proof (induction idx rule: rev_induct)
  case Nil
  then show ?case by (simp add: build_lookup_def)
next
  case (snoc item idx)
  then show ?case by (simp add: build_lookup_snoc)
qed

lemma build_lookup_None_iff:
  "build_lookup idx k = None \<longleftrightarrow> (\<forall>item \<in> set idx. label_key item \<noteq> k)"
  by (simp add: build_lookup_last filter_empty_conv)






section \<open>Price snapshot\<close>










section \<open>Pipeline runner\<close>

lemma validated_model_set:
  assumes "validate_runtime_environment env ticker company_name = None"
  shows "\<exists>v. env ''OPENROUTER_MODEL'' = Some v \<and> v \<noteq> []"
proof -
  from assms have "env_stripped env ''OPENROUTER_MODEL'' \<noteq> []"
    by (simp add: validate_runtime_environment_def Let_def split: if_splits)
  then show ?thesis
    by (cases "env ''OPENROUTER_MODEL''") (auto simp: env_stripped_def strip_def)
qed

lemma for_models_other_keys:
  "k \<noteq> ''OPENROUTER_MODEL'' \<Longrightarrow>
   rs_env (snd (for_models kick models max_attempts attempt rest s)) k = rs_env s k"
proof (induction kick models max_attempts attempt rest s rule: for_models.induct)
  case (1 kick models max_attempts attempt s)
  then show ?case by simp
next
  case (2 kick models max_attempts attempt candidate_model rest s)
  show ?case
  proof (cases "kick candidate_model False (length (rs_executed (set_model candidate_model s)))")
    case (BuildRaises m)
    then show ?thesis using "2.prems" by (simp add: set_model_def)
  next
    case (KickoffReturns r)
    then show ?thesis using "2.prems" by (simp add: set_model_def executed_def)
  next
    case (KickoffRaises m)
    show ?thesis
    proof (cases "is_readonly_database_error m")
      case True
      then show ?thesis
        using KickoffRaises "2.prems"
        by (simp add: set_model_def executed_def Let_def split: kick_result.splits)
    next
      case ro: False
      show ?thesis
      proof (cases "is_model_switchable_error m \<and> rest \<noteq> []")
        case True
        then show ?thesis
          using KickoffRaises ro "2.prems" "2.IH"(1)[OF refl KickoffRaises refl ro True]
          by (simp add: set_model_def executed_def yielded_def Let_def)
      next
        case sw: False
        show ?thesis
        proof (cases "is_model_switchable_error m \<and> is_rate_limit_error m \<and> attempt < max_attempts")
          case True
          then show ?thesis
            using KickoffRaises ro sw "2.prems" "2.IH"(2)[OF refl KickoffRaises refl ro sw True]
            by (simp add: set_model_def executed_def yielded_def Let_def)
        next
          case False
          then show ?thesis
            using KickoffRaises ro sw "2.prems"
            by (auto simp: set_model_def executed_def Let_def)
        qed
      qed
    qed
  qed
qed


lemma snd_finish:
  "snd (case outcome of
          Inl exc \<Rightarrow> (Inl exc, s')
        | Inr None \<Rightarrow> (Inl e, s')
        | Inr (Some result) \<Rightarrow> (Inr result, s')) = s'"
  by (simp split: sum.splits option.splits)

lemma run_workflow_state:
  assumes "validate_runtime_environment env ticker company_name = None"
    and "env ''OPENROUTER_MODEL'' = Some v" and "v \<noteq> []"
  shows "\<exists>ms mx. snd (run_workflow kick env ticker company_name retries)
             = set_model v (snd (for_models kick ms mx 1 ms
                 \<lparr> rs_env = env, rs_executed = [], rs_events = [] \<rparr>))"
proof -
  have g: "getenv env ''OPENROUTER_MODEL'' [] = v" using assms(2) by (simp add: getenv_def)
  define ms where "ms = (if candidate_openrouter_models env \<noteq> [] then candidate_openrouter_models env
                  else [v])"
  define mx where "mx = nat (max 1 (coerce_int retries 3))"
  define res where "res = for_models kick ms mx 1 ms \<lparr> rs_env = env, rs_executed = [], rs_events = [] \<rparr>"
  have "run_workflow kick env ticker company_name retries =
          (case fst res of
             Inl exc \<Rightarrow> (Inl exc, set_model v (snd res))
           | Inr None \<Rightarrow> (Inl (RuntimeError ''Crew execution did not produce a result.''),
                           set_model v (snd res))
           | Inr (Some result) \<Rightarrow> (Inr result, set_model v (snd res)))"
    unfolding run_workflow_def Let_def assms(1) g option.case case_prod_beta
      ms_def[symmetric] mx_def[symmetric] res_def[symmetric]
    using assms(3) by (simp only: if_True simp_thms)
  then have "snd (run_workflow kick env ticker company_name retries) = set_model v (snd res)"
    by (simp only: snd_finish)
  then show ?thesis unfolding res_def by blast
qed

text \<open>
  C4. Whatever the executor does and however the run ends (a validation error, a result,
  an exception that leaves the retry loop, or no result), the process environment after
  the run holds for \<open>OPENROUTER_MODEL\<close> the value it held before the run; indeed the whole
  environment is as before, since the runner writes no other variable.
\<close>

theorem run_workflow_restores_model:
  "rs_env (snd (run_workflow kick env ticker company_name retries)) ''OPENROUTER_MODEL''
     = env ''OPENROUTER_MODEL''
   \<and> rs_env (snd (run_workflow kick env ticker company_name retries)) = env"
proof -
  have "rs_env (snd (run_workflow kick env ticker company_name retries)) = env"
  proof (cases "validate_runtime_environment env ticker company_name")
    case (Some exc)
    then show ?thesis by (simp add: run_workflow_def Let_def)
  next
    case None
    from validated_model_set[OF None] obtain v where v: "env ''OPENROUTER_MODEL'' = Some v" "v \<noteq> []"
      by blast
    from run_workflow_state[OF None v, of kick retries] obtain ms mx where
      r: "snd (run_workflow kick env ticker company_name retries)
                = set_model v (snd (for_models kick ms mx 1 ms
                    \<lparr> rs_env = env, rs_executed = [], rs_events = [] \<rparr>))"
      by blast
    show ?thesis
    proof (rule ext)
      fix k
      show "rs_env (snd (run_workflow kick env ticker company_name retries)) k = env k"
      proof (cases "k = ''OPENROUTER_MODEL''")
        case True
        then show ?thesis unfolding r using v(1) by (simp add: set_model_def)
      next
        case False
        then show ?thesis
          unfolding r
          using for_models_other_keys[OF False, of kick ms mx 1 ms
                  "\<lparr> rs_env = env, rs_executed = [], rs_events = [] \<rparr>"]
          by (simp add: set_model_def)
      qed
    qed
  qed
  then show ?thesis by simp
qed


theorem run_workflow_restores_model_witness:
  "rs_env (snd (run_workflow (\<lambda>m noop n. if m = ''vendor/m1'' then KickoffRaises ''RateLimitError: provider returned 429''
                    else KickoffReturns (Some ''report'')) [''OPENROUTER_API_KEY'' \<mapsto> ''key'', ''OPENROUTER_MODEL'' \<mapsto> ''vendor/m1'',
        ''OPENROUTER_MODEL_FALLBACKS'' \<mapsto> ''vendor/m2''] ''TCS.NS'' ''Tata Consultancy'' (Some 3))) ''OPENROUTER_MODEL''
     = Some ''vendor/m1''
   \<and> rs_executed (snd (run_workflow (\<lambda>m noop n. if m = ''vendor/m1'' then KickoffRaises ''RateLimitError: provider returned 429''
                    else KickoffReturns (Some ''report'')) [''OPENROUTER_API_KEY'' \<mapsto> ''key'', ''OPENROUTER_MODEL'' \<mapsto> ''vendor/m1'',
        ''OPENROUTER_MODEL_FALLBACKS'' \<mapsto> ''vendor/m2''] ''TCS.NS'' ''Tata Consultancy'' (Some 3)))
     = [''vendor/m1'', ''vendor/m2'']
   \<and> fst (run_workflow (\<lambda>m noop n. if m = ''vendor/m1'' then KickoffRaises ''RateLimitError: provider returned 429''
                    else KickoffReturns (Some ''report'')) [''OPENROUTER_API_KEY'' \<mapsto> ''key'', ''OPENROUTER_MODEL'' \<mapsto> ''vendor/m1'',
        ''OPENROUTER_MODEL_FALLBACKS'' \<mapsto> ''vendor/m2''] ''TCS.NS'' ''Tata Consultancy'' (Some 3)) = Inr ''report''
   \<and> rs_env (snd (run_workflow (\<lambda>m noop n. if m = ''vendor/m1'' then KickoffRaises ''RateLimitError: provider returned 429''
                    else KickoffRaises ''No endpoints found matching your data policy'') [''OPENROUTER_API_KEY'' \<mapsto> ''key'', ''OPENROUTER_MODEL'' \<mapsto> ''vendor/m1'',
        ''OPENROUTER_MODEL_FALLBACKS'' \<mapsto> ''vendor/m2''] ''TCS.NS'' ''Tata Consultancy'' (Some 3))) ''OPENROUTER_MODEL''
     = Some ''vendor/m1''
   \<and> rs_executed (snd (run_workflow (\<lambda>m noop n. if m = ''vendor/m1'' then KickoffRaises ''RateLimitError: provider returned 429''
                    else KickoffRaises ''No endpoints found matching your data policy'') [''OPENROUTER_API_KEY'' \<mapsto> ''key'', ''OPENROUTER_MODEL'' \<mapsto> ''vendor/m1'',
        ''OPENROUTER_MODEL_FALLBACKS'' \<mapsto> ''vendor/m2''] ''TCS.NS'' ''Tata Consultancy'' (Some 3)))
     = [''vendor/m1'', ''vendor/m2'']"
proof -
  let ?E = "[''OPENROUTER_API_KEY'' \<mapsto> ''key'', ''OPENROUTER_MODEL'' \<mapsto> ''vendor/m1'',
        ''OPENROUTER_MODEL_FALLBACKS'' \<mapsto> ''vendor/m2'']"
  have e: "?E ''OPENROUTER_MODEL'' = Some ''vendor/m1''" by simp
  have 1: "rs_env (snd (run_workflow (\<lambda>m noop n. if m = ''vendor/m1'' then KickoffRaises ''RateLimitError: provider returned 429''
                    else KickoffReturns (Some ''report'')) ?E ''TCS.NS'' ''Tata Consultancy'' (Some 3))) ''OPENROUTER_MODEL''
     = Some ''vendor/m1''"
    using run_workflow_restores_model[where env = ?E, THEN conjunct1] e by simp
  have 2: "rs_executed (snd (run_workflow (\<lambda>m noop n. if m = ''vendor/m1'' then KickoffRaises ''RateLimitError: provider returned 429''
                    else KickoffReturns (Some ''report'')) ?E ''TCS.NS'' ''Tata Consultancy'' (Some 3)))
     = [''vendor/m1'', ''vendor/m2'']"
    by code_simp
  have 3: "fst (run_workflow (\<lambda>m noop n. if m = ''vendor/m1'' then KickoffRaises ''RateLimitError: provider returned 429''
                    else KickoffReturns (Some ''report'')) ?E ''TCS.NS'' ''Tata Consultancy'' (Some 3)) = Inr ''report''"
    by code_simp
  have 4: "rs_env (snd (run_workflow (\<lambda>m noop n. if m = ''vendor/m1'' then KickoffRaises ''RateLimitError: provider returned 429''
                    else KickoffRaises ''No endpoints found matching your data policy'') ?E ''TCS.NS'' ''Tata Consultancy'' (Some 3))) ''OPENROUTER_MODEL''
     = Some ''vendor/m1''"
    using run_workflow_restores_model[where env = ?E, THEN conjunct1] e by simp
  have 5: "rs_executed (snd (run_workflow (\<lambda>m noop n. if m = ''vendor/m1'' then KickoffRaises ''RateLimitError: provider returned 429''
                    else KickoffRaises ''No endpoints found matching your data policy'') ?E ''TCS.NS'' ''Tata Consultancy'' (Some 3)))
     = [''vendor/m1'', ''vendor/m2'']"
    by code_simp
  from 1 2 3 4 5 show ?thesis by (intro conjI)
qed

text \<open>
  C3, as the code has it. Let every execution with \<open>m1\<close> raise a rate-limit error \<open>e1\<close> and
  every execution with \<open>m2\<close> raise a policy-block error \<open>e2\<close>, neither of them a storage
  error and \<open>e2\<close> not a rate-limit error. Then, for the models \<open>[m1, m2]\<close> and any number of
  attempts (3 in particular), the runner executes \<open>m1\<close>, yields the switch to \<open>m2\<close>, executes
  \<open>m2\<close>, and ends there by raising \<open>e2\<close> again, unchanged: \<open>m1\<close> is executed once, before the
  switch, and no attempt is retried.
\<close>

theorem for_models_switch_then_fail:
  assumes "\<And>noop n. kick m1 noop n = KickoffRaises e1"
    and "\<And>noop n. kick m2 noop n = KickoffRaises e2"
    and "is_rate_limit_error e1" and "\<not> is_readonly_database_error e1"
    and "is_free_model_policy_error e2" and "\<not> is_rate_limit_error e2"
    and "\<not> is_readonly_database_error e2"
  shows "for_models kick [m1, m2] max_attempts 1 [m1, m2] s =
           (Inl (External e2),
            s\<lparr> rs_env := (rs_env s)(''OPENROUTER_MODEL'' \<mapsto> m2),
               rs_executed := rs_executed s @ [m1, m2],
               rs_events := rs_events s
                 @ [SwitchingModel 1 m1 m2 (is_free_model_policy_error e1)] \<rparr>)
         \<and> m1 \<noteq> m2"
proof
  show "for_models kick [m1, m2] max_attempts 1 [m1, m2] s =
           (Inl (External e2),
            s\<lparr> rs_env := (rs_env s)(''OPENROUTER_MODEL'' \<mapsto> m2),
               rs_executed := rs_executed s @ [m1, m2],
               rs_events := rs_events s
                 @ [SwitchingModel 1 m1 m2 (is_free_model_policy_error e1)] \<rparr>)"
    using assms
    by (simp add: Let_def is_model_switchable_error_def set_model_def executed_def yielded_def)
  show "m1 \<noteq> m2"
  proof
    assume "m1 = m2"
    then have "KickoffRaises e1 = KickoffRaises e2"
      using assms(1)[of False 0] assms(2)[of False 0] by simp
    then show False using assms(3,6) by simp
  qed
qed

theorem for_models_switch_then_fail_witness:
  "is_rate_limit_error ''RateLimitError: provider returned 429''
   \<and> \<not> is_readonly_database_error ''RateLimitError: provider returned 429''
   \<and> is_free_model_policy_error ''No endpoints found matching your data policy''
   \<and> \<not> is_rate_limit_error ''No endpoints found matching your data policy''
   \<and> \<not> is_readonly_database_error ''No endpoints found matching your data policy''
   \<and> for_models (\<lambda>m noop n. if m = ''vendor/m1'' then KickoffRaises ''RateLimitError: provider returned 429''
                    else KickoffRaises ''No endpoints found matching your data policy'') [''vendor/m1'', ''vendor/m2''] 3 1 [''vendor/m1'', ''vendor/m2'']
         \<lparr> rs_env = Map.empty, rs_executed = [], rs_events = [] \<rparr>
       = (Inl (External ''No endpoints found matching your data policy''),
          \<lparr> rs_env = [''OPENROUTER_MODEL'' \<mapsto> ''vendor/m2''],
            rs_executed = [''vendor/m1'', ''vendor/m2''],
            rs_events = [SwitchingModel 1 ''vendor/m1'' ''vendor/m2'' False] \<rparr>)"
proof -
  have h1: "is_rate_limit_error ''RateLimitError: provider returned 429''" by code_simp
  have h2: "\<not> is_readonly_database_error ''RateLimitError: provider returned 429''" by code_simp
  have h3: "is_free_model_policy_error ''No endpoints found matching your data policy''"
    by code_simp
  have h4: "\<not> is_rate_limit_error ''No endpoints found matching your data policy''" by code_simp
  have h5: "\<not> is_readonly_database_error ''No endpoints found matching your data policy''"
    by code_simp
  have h6: "\<not> is_free_model_policy_error ''RateLimitError: provider returned 429''" by code_simp
  have k1: "\<And>noop n. (\<lambda>m noop n. if m = ''vendor/m1'' then KickoffRaises ''RateLimitError: provider returned 429''
                    else KickoffRaises ''No endpoints found matching your data policy'') ''vendor/m1'' noop n
              = KickoffRaises ''RateLimitError: provider returned 429''"
    by simp
  have k2: "\<And>noop n. (\<lambda>m noop n. if m = ''vendor/m1'' then KickoffRaises ''RateLimitError: provider returned 429''
                    else KickoffRaises ''No endpoints found matching your data policy'') ''vendor/m2'' noop n
              = KickoffRaises ''No endpoints found matching your data policy''"
    by simp
  have "for_models (\<lambda>m noop n. if m = ''vendor/m1'' then KickoffRaises ''RateLimitError: provider returned 429''
                    else KickoffRaises ''No endpoints found matching your data policy'') [''vendor/m1'', ''vendor/m2''] 3 1 [''vendor/m1'', ''vendor/m2'']
         \<lparr> rs_env = Map.empty, rs_executed = [], rs_events = [] \<rparr>
       = (Inl (External ''No endpoints found matching your data policy''),
          \<lparr> rs_env = [''OPENROUTER_MODEL'' \<mapsto> ''vendor/m2''],
            rs_executed = [''vendor/m1'', ''vendor/m2''],
            rs_events = [SwitchingModel 1 ''vendor/m1'' ''vendor/m2'' False] \<rparr>)"
    using for_models_switch_then_fail[where kick = "(\<lambda>m noop n. if m = ''vendor/m1'' then KickoffRaises ''RateLimitError: provider returned 429''
                    else KickoffRaises ''No endpoints found matching your data policy'')"
        and ?m1.0 = "''vendor/m1''" and ?m2.0 = "''vendor/m2''"
        and ?e1.0 = "''RateLimitError: provider returned 429''"
        and ?e2.0 = "''No endpoints found matching your data policy''"
        and max_attempts = 3
        and s = "\<lparr> rs_env = Map.empty, rs_executed = [], rs_events = [] \<rparr>",
        OF k1 k2 h1 h2 h3 h4 h5, THEN conjunct1] h6
    by simp
  with h1 h2 h3 h4 h5 show ?thesis by (intro conjI)
qed

text \<open>
  C3 as stated ends with a fatal error that reports exhaustion. The runner builds only one
  error of its own, for a run without a result; here it is not reached. With the primary
  model \<open>vendor/m1\<close> rate-limited, the fallback \<open>vendor/m2\<close> blocked by policy, and 3
  attempts, what leaves the runner is the policy error of \<open>vendor/m2\<close> itself.
\<close>

theorem run_workflow_raises_last_error_counterexample:
  "fst (run_workflow (\<lambda>m noop n. if m = ''vendor/m1'' then KickoffRaises ''RateLimitError: provider returned 429''
                    else KickoffRaises ''No endpoints found matching your data policy'') [''OPENROUTER_API_KEY'' \<mapsto> ''key'', ''OPENROUTER_MODEL'' \<mapsto> ''vendor/m1'',
        ''OPENROUTER_MODEL_FALLBACKS'' \<mapsto> ''vendor/m2''] ''TCS.NS'' ''Tata Consultancy'' (Some 3))
     = Inl (External ''No endpoints found matching your data policy'')
   \<and> fst (run_workflow (\<lambda>m noop n. if m = ''vendor/m1'' then KickoffRaises ''RateLimitError: provider returned 429''
                    else KickoffRaises ''No endpoints found matching your data policy'') [''OPENROUTER_API_KEY'' \<mapsto> ''key'', ''OPENROUTER_MODEL'' \<mapsto> ''vendor/m1'',
        ''OPENROUTER_MODEL_FALLBACKS'' \<mapsto> ''vendor/m2''] ''TCS.NS'' ''Tata Consultancy'' (Some 3))
     \<noteq> Inl (RuntimeError ''Crew execution did not produce a result.'')"
  by code_simp


end
